theory Spec2Isabelle
  imports Complex_Main "HOL-Library.Finite_Map" "HOL-Library.Log_Nat"
begin

section \<open>Strings of the program\<close>

text \<open>
  A JavaScript string is a sequence of UTF-16 code units. A code unit is modelled by its
  number, so that the accented letters and the combining marks (U+0300 to U+036F) of the
  Spanish word lists have a value. \<open>js\<close> writes an ASCII literal as such a string.
\<close>

type_synonym jschar = nat
type_synonym jsstring = "jschar list"

definition js :: "string \<Rightarrow> jsstring" where
  "js cs = map of_char cs"

section \<open>Game client: the App component\<close>

subsection \<open>State variables\<close>

text \<open>
  The five \<open>useState\<close> cells of \<open>App\<close>. \<open>guessedLetters\<close> holds the values of the
  keyboard buttons pressed so far; every button carries one letter, so an entry is one code
  unit. \<open>fetchesInFlight\<close> is bookkeeping of the model only: the number of calls of
  \<open>getNewWord\<close> that wait for their response.
\<close>

datatype lang = En | Es

record session =
  currentWord :: jsstring
  guessedLetters :: "jschar list"
  winGame :: bool
  wrongAttemps :: nat
  language :: "lang option"
  fetchesInFlight :: nat

text \<open>The initial values: the word is the one-blank placeholder, no language is chosen.\<close>

definition placeholder :: jsstring where
  "placeholder = js '' ''"

definition initial :: session where
  "initial = \<lparr>currentWord = placeholder, guessedLetters = [], winGame = False,
     wrongAttemps = 0, language = None, fetchesInFlight = 0\<rparr>"

text \<open>\<open>const gameOver = winGame || wrongAttemps > 7\<close>\<close>

definition gameOver :: "session \<Rightarrow> bool" where
  "gameOver s = (winGame s \<or> wrongAttemps s > 7)"

subsection \<open>The win check\<close>

text \<open>
  The effect with dependency list \<open>[guessedLetters]\<close>: it runs after a render in which the
  array \<open>guessedLetters\<close> is a new one. It only ever sets the flag.
\<close>

definition hasWon :: "session \<Rightarrow> bool" where
  "hasWon s = list_all (\<lambda>letter. letter \<in> set (guessedLetters s)) (currentWord s)"

definition winEffect :: "session \<Rightarrow> session" where
  "winEffect s = (if hasWon s then s\<lparr>winGame := True\<rparr> else s)"

subsection \<open>User input handler\<close>

text \<open>
  \<open>checkGuessedLetter\<close> with \<open>buttonValue\<close> the lower-cased text of the button. Both state
  updates are functional updates of the previous value.
\<close>

definition checkGuessedLetter :: "jschar \<Rightarrow> session \<Rightarrow> session" where
  "checkGuessedLetter buttonValue s =
     (if buttonValue \<notin> set (guessedLetters s)
      then s\<lparr>guessedLetters := guessedLetters s @ [buttonValue],
             wrongAttemps := (if buttonValue \<notin> set (currentWord s)
                              then wrongAttemps s + 1 else wrongAttemps s)\<rparr>
      else s)"

text \<open>
  A guess is a click on a keyboard button. The buttons are rendered with
  \<open>disabled={gameOver}\<close>, and a disabled button delivers no click. After the handler the
  component renders again, and the win check runs when the handler replaced the array.
\<close>

definition alphabet :: jsstring where
  "alphabet = js ''qwertyuiopasdfghjklzxcvbnm''"

definition keyboardRendered :: "session \<Rightarrow> bool" where
  "keyboardRendered s = (language s \<noteq> None)"

definition keyboardDisabled :: "session \<Rightarrow> bool" where
  "keyboardDisabled s = gameOver s"

definition keyboardClick :: "jschar \<Rightarrow> session \<Rightarrow> session" where
  "keyboardClick buttonValue s =
     (if keyboardDisabled s then s
      else (let s' = checkGuessedLetter buttonValue s
            in if guessedLetters s' = guessedLetters s then s' else winEffect s'))"

text \<open>A sequence of guesses, first letter first.\<close>

definition guesses :: "session \<Rightarrow> jschar list \<Rightarrow> session" where
  "guesses s ls = foldl (\<lambda>t l. keyboardClick l t) s ls"

subsection \<open>Language selection and reset\<close>

text \<open>
  \<open>setLanguage\<close> is called by the two buttons of the language picker. The effect with
  dependency list \<open>[language]\<close> then calls \<open>getNewWord\<close>, which sends its request and
  waits; what it does when the response is there is \<open>getNewWord_resume\<close> below.
\<close>

definition setLanguage :: "lang \<Rightarrow> session \<Rightarrow> session" where
  "setLanguage code s =
     s\<lparr>language := Some code, fetchesInFlight := fetchesInFlight s + 1\<rparr>"

text \<open>
  \<open>resetGame\<close> calls \<open>getNewWord\<close> without waiting for it and sets three state cells.
  \<open>setGuessedLetters([])\<close> stores a new array, so the win check runs after the render,
  against the word of that render.
\<close>

definition resetGame :: "session \<Rightarrow> session" where
  "resetGame s =
     winEffect (s\<lparr>guessedLetters := [], winGame := False, wrongAttemps := 0,
                  fetchesInFlight := fetchesInFlight s + 1\<rparr>)"

subsection \<open>Word display\<close>

text \<open>
  \<open>displayedWord\<close>: nothing while the word is the placeholder, otherwise one box for each
  letter, filled when the letter is guessed (the box shows the letter in upper case).
\<close>

definition displayedWord :: "session \<Rightarrow> jschar option list option" where
  "displayedWord s =
     (if currentWord s \<noteq> placeholder
      then Some (map (\<lambda>letter. if letter \<in> set (guessedLetters s) then Some letter else None)
                  (currentWord s))
      else None)"

section \<open>Responses and their evaluation\<close>

text \<open>
  The value that \<open>res.json()\<close> gives: what \<open>JSON.parse\<close> makes of a body. A number
  is a double: a finite one (given by its value), negative zero, or an infinity (the parse
  of a literal too large for a double); \<open>NaN\<close> is never the parse of a literal. An object
  is a finite map from names to values: a name occurs once, and the order of the properties
  plays no role in the program.
\<close>

datatype jsnumber = Finite rat | MinusZero | PlusInfinity | MinusInfinity

datatype json =
    JNull
  | JBool bool
  | JNum jsnumber
  | JStr jsstring
  | JArr "json list"
  | JObj "(jsstring, json) fmap"

text \<open>
  What can go wrong: \<open>TypeError\<close> is thrown by a property read on \<open>undefined\<close> or \<open>null\<close>
  and by a call of a method the value does not have; \<open>NetworkError\<close> is a rejected
  \<open>fetch\<close>; \<open>SyntaxError\<close> is a body that is not JSON.
\<close>

datatype error = TypeError | NetworkError | SyntaxError

definition andThen :: "error + 'a \<Rightarrow> ('a \<Rightarrow> error + 'b) \<Rightarrow> error + 'b" where
  "andThen m f = (case m of Inl e \<Rightarrow> Inl e | Inr x \<Rightarrow> f x)"

text \<open>
  A JavaScript value met while the response is taken apart is a JSON value or
  \<open>undefined\<close> (\<open>None\<close>). \<open>member k v\<close> is the property read \<open>v.k\<close> for the names used by
  the program (\<open>word\<close>, \<open>results\<close>, \<open>Palabra\<close>), which no built-in prototype defines.
\<close>

definition field :: "jsstring \<Rightarrow> (jsstring, json) fmap \<Rightarrow> json option" where
  "field k kvs = fmlookup kvs k"

fun member :: "jsstring \<Rightarrow> json option \<Rightarrow> error + json option" where
  "member k None = Inl TypeError"
| "member k (Some JNull) = Inl TypeError"
| "member k (Some (JObj kvs)) = Inr (field k kvs)"
| "member k (Some v) = Inr None"

text \<open>The name under which an object holds the index \<open>i\<close>: its decimal digits.\<close>

fun decimal :: "nat \<Rightarrow> jsstring" where
  "decimal n = (if n < 10 then [48 + n] else decimal (n div 10) @ [48 + n mod 10])"

declare decimal.simps [simp del]

text \<open>\<open>element i v\<close> is the indexed read \<open>v[i]\<close>.\<close>

fun element :: "nat \<Rightarrow> json option \<Rightarrow> error + json option" where
  "element i None = Inl TypeError"
| "element i (Some JNull) = Inl TypeError"
| "element i (Some (JArr xs)) = Inr (if i < length xs then Some (xs ! i) else None)"
| "element i (Some (JStr cs)) = Inr (if i < length cs then Some (JStr [cs ! i]) else None)"
| "element i (Some (JObj kvs)) = Inr (field (decimal i) kvs)"
| "element i (Some v) = Inr None"

text \<open>
  \<open>Math.random()\<close> gives a double that is at least 0 and less than 1. Such a double
  is \<open>mant / 2 ^ scale\<close> with \<open>mant\<close> below \<open>2 ^ 53\<close> and \<open>scale\<close> at most 1074.
\<close>

record unit_double =
  mant :: nat
  scale :: nat

definition isUnitDouble :: "unit_double \<Rightarrow> bool" where
  "isUnitDouble r = (mant r < 2 ^ 53 \<and> mant r < 2 ^ scale r \<and> scale r \<le> 1074)"

text \<open>
  The functions of the platform that are not code of this repository are taken as
  parameters: the two string functions, and \<open>indexName r v\<close>, the property name that the
  platform makes of \<open>Math.floor(r * v)\<close> for a value \<open>v\<close> that is not the length of an
  array or a string (its conversion to a number is the platform's).
\<close>

record platform =
  toLowerCase :: "jsstring \<Rightarrow> jsstring"
  normalizeNFD :: "jsstring \<Rightarrow> jsstring"
  indexName :: "unit_double \<Rightarrow> json option \<Rightarrow> jsstring"

text \<open>\<open>v.toLowerCase()\<close>: only a string has the method.\<close>

fun lowerCased :: "platform \<Rightarrow> json option \<Rightarrow> error + jsstring" where
  "lowerCased P (Some (JStr cs)) = Inr (toLowerCase P cs)"
| "lowerCased P v = Inl TypeError"

text \<open>The \<open>replace\<close> call: every code unit from U+0300 to U+036F is removed.\<close>

definition stripMarks :: "jsstring \<Rightarrow> jsstring" where
  "stripMarks cs = filter (\<lambda>c. \<not> (0x300 \<le> c \<and> c \<le> 0x36F)) cs"

text \<open>
  \<open>M / 2 ^ s\<close> rounded to the nearest integer, a tie to the even one: the rounding of
  double arithmetic.
\<close>

definition roundHalfEven :: "nat \<Rightarrow> nat \<Rightarrow> nat" where
  "roundHalfEven M s =
     (let q = M div 2 ^ s; rest = M mod 2 ^ s
      in if 2 ^ s < 2 * rest \<or> (2 * rest = 2 ^ s \<and> odd q) then q + 1 else q)"

text \<open>
  \<open>Math.floor(Math.random() * spanishWords.length)\<close>, with \<open>r\<close> the value of
  \<open>Math.random()\<close> and \<open>n\<close> the length, which is below \<open>2 ^ 32\<close> and so is itself
  a double. The exact product is \<open>M / 2 ^ scale\<close> with \<open>M = mant * n\<close>. The product
  of the doubles is the exact product rounded to 53 significant bits: \<open>M\<close> loses the
  \<open>s\<close> bits it has beyond 53. \<open>Math.floor\<close> of a double is exact.
\<close>

definition randomIndex :: "unit_double \<Rightarrow> nat \<Rightarrow> nat" where
  "randomIndex r n =
     (let M = mant r * n; s = floorlog 2 M - 53
      in (roundHalfEven M s * 2 ^ s) div 2 ^ scale r)"

text \<open>
  \<open>spanishWords[Math.floor(Math.random() * spanishWords.length)]\<close>. A number or a
  boolean has no \<open>length\<close>: the index is \<open>NaN\<close> and the read gives \<open>undefined\<close>. An
  object is read at the name made of its \<open>length\<close> property.
\<close>

fun pick :: "platform \<Rightarrow> unit_double \<Rightarrow> json option \<Rightarrow> error + json option" where
  "pick P r None = Inl TypeError"
| "pick P r (Some JNull) = Inl TypeError"
| "pick P r (Some (JArr xs)) = element (randomIndex r (length xs)) (Some (JArr xs))"
| "pick P r (Some (JStr cs)) = element (randomIndex r (length cs)) (Some (JStr cs))"
| "pick P r (Some (JObj kvs)) = Inr (field (indexName P r (field (js ''length'') kvs)) kvs)"
| "pick P r (Some v) = Inr None"

text \<open>The body of \<open>getNewWord\<close> after \<open>const data = await res.json()\<close>, up to \<open>word\<close>.\<close>

definition extractWord ::
  "platform \<Rightarrow> lang option \<Rightarrow> unit_double \<Rightarrow> json \<Rightarrow> error + jsstring" where
  "extractWord P lng r data =
     (if lng = Some En
      then andThen (andThen (member (js ''word'') (Some data)) (element 0)) (lowerCased P)
      else if lng = Some Es
      then andThen (andThen (andThen (andThen (member (js ''results'') (Some data))
                                        (pick P r))
                               (member (js ''Palabra'')))
                      (lowerCased P))
             (\<lambda>lowered. Inr (stripMarks (normalizeNFD P lowered)))
      else Inr [])"

text \<open>
  \<open>getNewWord\<close> from the arrival of the response on. \<open>response\<close> is the outcome of
  \<open>fetch\<close> and \<open>res.json()\<close>. A thrown error rejects the promise, which nobody handles:
  \<open>setCurrentWord\<close> is not reached. The language is the one of the render that made the
  call; it does not change once chosen.
\<close>

definition getNewWord_resume ::
  "platform \<Rightarrow> unit_double \<Rightarrow> error + json \<Rightarrow> session \<Rightarrow> session" where
  "getNewWord_resume P r response s =
     (case andThen response (extractWord P (language s) r) of
        Inr word \<Rightarrow> s\<lparr>currentWord := word, fetchesInFlight := fetchesInFlight s - 1\<rparr>
      | Inl e \<Rightarrow> s\<lparr>fetchesInFlight := fetchesInFlight s - 1\<rparr>)"

section \<open>Backend: the word proxy\<close>

text \<open>
  \<open>req.query.lang\<close> as Express parses it: absent (\<open>None\<close>), a string, an array or an
  object.
\<close>

datatype query_value =
    QString jsstring
  | QArray "query_value list"
  | QObject "(jsstring \<times> query_value) list"

text \<open>\<open>process.env\<close>: the two keys.\<close>

record env =
  NINJAS_API_KEY :: jsstring
  SPANISH_API_KEY :: jsstring

record upstream_request =
  url :: jsstring
  headers :: "(jsstring \<times> jsstring) list"

text \<open>
  What the handler reads of an upstream response: \<open>upstream_json\<close> is the value that
  \<open>response.json()\<close> gives, \<open>None\<close> when the body is not JSON. The upstream status is
  never read.
\<close>

record upstream_response =
  upstream_status :: nat
  upstream_json :: "json option"

text \<open>A reply: \<open>body\<close> is the value of the text sent, as a client parses it.\<close>

record reply =
  status :: nat
  body :: json

text \<open>One handled request: the calls made upstream, in order, and the reply sent.\<close>

record handled =
  outbound :: "upstream_request list"
  sent :: reply

text \<open>\<open>const lang = req.query.lang || "en"\<close>: of the values a query can have, only
  \<open>undefined\<close> and the empty string are falsy.\<close>

definition langOrDefault :: "query_value option \<Rightarrow> query_value" where
  "langOrDefault q =
     (case q of
        None \<Rightarrow> QString (js ''en'')
      | Some v \<Rightarrow> if v = QString [] then QString (js ''en'') else v)"

definition ninjasRequest :: "env \<Rightarrow> upstream_request" where
  "ninjasRequest e =
     \<lparr>url = js ''https://api.api-ninjas.com/v1/randomword'',
      headers = [(js ''X-Api-Key'', NINJAS_API_KEY e)]\<rparr>"

definition spanishRequest :: "env \<Rightarrow> upstream_request" where
  "spanishRequest e =
     \<lparr>url = js ''https://www.freeapidatabase.com/View/methodget.php?idTbla=522&idProyect=184'',
      headers = [(js ''Authorization'', js ''Bearer '' @ SPANISH_API_KEY e)]\<rparr>"

definition upstreamRequest :: "env \<Rightarrow> query_value option \<Rightarrow> upstream_request" where
  "upstreamRequest e q =
     (if langOrDefault q = QString (js ''en'') then ninjasRequest e else spanishRequest e)"

definition responseJson :: "upstream_response \<Rightarrow> error + json" where
  "responseJson response =
     (case upstream_json response of None \<Rightarrow> Inl SyntaxError | Some data \<Rightarrow> Inr data)"

definition errorBody :: json where
  "errorBody =
     JObj (fmap_of_list [(js ''error'', JStr (js ''Error retrieving word from external API''))])"

text \<open>
  \<open>res.json(data)\<close> sends the text \<open>JSON.stringify(data)\<close>; \<open>res_json data\<close> is the
  value of that text. A finite number is written so that it reads back as the same double,
  negative zero is written \<open>0\<close>, and an infinity is written \<open>null\<close>.
\<close>

primrec res_json :: "json \<Rightarrow> json" where
  "res_json JNull = JNull"
| "res_json (JBool b) = JBool b"
| "res_json (JNum x) =
     (case x of
        Finite q \<Rightarrow> JNum (Finite q)
      | MinusZero \<Rightarrow> JNum (Finite 0)
      | PlusInfinity \<Rightarrow> JNull
      | MinusInfinity \<Rightarrow> JNull)"
| "res_json (JStr cs) = JStr cs"
| "res_json (JArr xs) = JArr (map res_json xs)"
| "res_json (JObj kvs) = JObj (fmmap res_json kvs)"



text \<open>
  The handler of \<open>GET /api/word\<close>. \<open>fetch\<close> is the upstream world: what a call returns
  or throws. Whatever is thrown inside \<open>try\<close> ends in the \<open>catch\<close> branch.
\<close>

definition api_word ::
  "env \<Rightarrow> (upstream_request \<Rightarrow> error + upstream_response) \<Rightarrow> query_value option \<Rightarrow> handled" where
  "api_word e fetch q =
     (let request = upstreamRequest e q
      in \<lparr>outbound = [request],
          sent = (case andThen (fetch request) responseJson of
                    Inr data \<Rightarrow> \<lparr>status = 200, body = res_json data\<rparr>
                  | Inl err \<Rightarrow> \<lparr>status = 500, body = res_json errorBody\<rparr>)\<rparr>)"

section \<open>The platform on Latin-1, and the runs used as examples\<close>

text \<open>
  For the examples the two string functions of the platform are needed at concrete
  strings. This is what ECMAScript's \<open>toLowerCase\<close> and Unicode's canonical
  decomposition do on strings of code units below 256 (Basic Latin and Latin-1
  Supplement); it is used on such strings only. No example reads an object as a list of
  words, so \<open>indexName\<close> is never applied in them; it is given for an object without a
  \<open>length\<close>, where the product is \<open>NaN\<close>.
\<close>

definition latin1_lower :: "jschar \<Rightarrow> jschar" where
  "latin1_lower c =
     (if (65 \<le> c \<and> c \<le> 90) \<or> (192 \<le> c \<and> c \<le> 222 \<and> c \<noteq> 215) then c + 32 else c)"

definition latin1_decomposition :: "(jschar \<times> jschar \<times> jschar) list" where
  "latin1_decomposition =
     [(192, 65, 0x300), (193, 65, 0x301), (194, 65, 0x302), (195, 65, 0x303),
      (196, 65, 0x308), (197, 65, 0x30A), (199, 67, 0x327),
      (200, 69, 0x300), (201, 69, 0x301), (202, 69, 0x302), (203, 69, 0x308),
      (204, 73, 0x300), (205, 73, 0x301), (206, 73, 0x302), (207, 73, 0x308),
      (209, 78, 0x303),
      (210, 79, 0x300), (211, 79, 0x301), (212, 79, 0x302), (213, 79, 0x303),
      (214, 79, 0x308),
      (217, 85, 0x300), (218, 85, 0x301), (219, 85, 0x302), (220, 85, 0x308),
      (221, 89, 0x301),
      (224, 97, 0x300), (225, 97, 0x301), (226, 97, 0x302), (227, 97, 0x303),
      (228, 97, 0x308), (229, 97, 0x30A), (231, 99, 0x327),
      (232, 101, 0x300), (233, 101, 0x301), (234, 101, 0x302), (235, 101, 0x308),
      (236, 105, 0x300), (237, 105, 0x301), (238, 105, 0x302), (239, 105, 0x308),
      (241, 110, 0x303),
      (242, 111, 0x300), (243, 111, 0x301), (244, 111, 0x302), (245, 111, 0x303),
      (246, 111, 0x308),
      (249, 117, 0x300), (250, 117, 0x301), (251, 117, 0x302), (252, 117, 0x308),
      (253, 121, 0x301), (255, 121, 0x308)]"

definition latin1_decompose :: "jschar \<Rightarrow> jsstring" where
  "latin1_decompose c =
     (case map_of latin1_decomposition c of None \<Rightarrow> [c] | Some (b, m) \<Rightarrow> [b, m])"

definition latin1 :: platform where
  "latin1 = \<lparr>toLowerCase = map latin1_lower, normalizeNFD = concat \<circ> map latin1_decompose,
     indexName = (\<lambda>r v. js ''NaN'')\<rparr>"

text \<open>Two draws: 0.5, and the double nearest to 0.7, which is a little below 0.7.\<close>

definition half :: unit_double where
  "half = \<lparr>mant = 1, scale = 1\<rparr>"

definition seven_tenths :: unit_double where
  "seven_tenths = \<lparr>mant = 3152519739159347, scale = 52\<rparr>"

text \<open>Responses: an English one, the Spanish one of the scenario (the word is
  U+00C1 R B O L), and an English one whose word is the single letter a.\<close>

definition cat_response :: json where
  "cat_response = JObj (fmap_of_list [(js ''word'', JArr [JStr (js ''Cat'')])])"

definition arbol_response :: json where
  "arbol_response =
     JObj (fmap_of_list
       [(js ''results'',
         JArr [JObj (fmap_of_list [(js ''Palabra'', JStr [193, 82, 66, 79, 76])])])])"

definition a_response :: json where
  "a_response = JObj (fmap_of_list [(js ''word'', JArr [JStr (js ''a'')])])"

text \<open>A game on the word cat: the language is chosen, the word arrives, nothing is
  guessed yet. Then the same game after the guesses c, a, t.\<close>

definition cat_fresh :: session where
  "cat_fresh = getNewWord_resume latin1 half (Inr cat_response) (setLanguage En initial)"

definition cat_won :: session where
  "cat_won = guesses cat_fresh (js ''cat'')"

text \<open>A game on the word dog, as a state.\<close>

definition dog_fresh :: session where
  "dog_fresh = \<lparr>currentWord = js ''dog'', guessedLetters = [], winGame = False,
     wrongAttemps = 0, language = Some En, fetchesInFlight = 0\<rparr>"

text \<open>The language is chosen and the word has not arrived.\<close>

definition waiting :: session where
  "waiting = setLanguage En initial"

text \<open>The player clicks a while waiting; then the response with the word a arrives.\<close>

definition early_guess :: session where
  "early_guess = getNewWord_resume latin1 half (Inr a_response) (keyboardClick 97 waiting)"

text \<open>A configuration of the proxy, and four upstream worlds. The last one answers with
  the body \<open>{"word":[1e400]}\<close>, whose number is too large for a double.\<close>

definition example_env :: env where
  "example_env = \<lparr>NINJAS_API_KEY = js ''ninjas-key'', SPANISH_API_KEY = js ''spanish-key''\<rparr>"

definition fetch_ok :: "upstream_request \<Rightarrow> error + upstream_response" where
  "fetch_ok request = Inr \<lparr>upstream_status = 200, upstream_json = Some cat_response\<rparr>"





section \<open>Properties of the game client\<close>

lemma guesses_Nil: "guesses s [] = s"
  by (simp add: guesses_def)

lemma guesses_Cons: "guesses s (l # ls) = guesses (keyboardClick l s) ls"
  by (simp add: guesses_def)

lemma keyboardClick_over: "gameOver s \<Longrightarrow> keyboardClick l s = s"
  by (simp add: keyboardClick_def keyboardDisabled_def)

lemma guesses_over: "gameOver s \<Longrightarrow> guesses s ls = s"
  by (induction ls) (simp_all add: guesses_Nil guesses_Cons keyboardClick_over)

lemma keyboardClick_guessed: "l \<in> set (guessedLetters s) \<Longrightarrow> keyboardClick l s = s"
  by (simp add: keyboardClick_def checkGuessedLetter_def)

lemma keyboardClick_new:
  assumes "\<not> gameOver s" and "l \<notin> set (guessedLetters s)"
  shows "keyboardClick l s =
     winEffect (s\<lparr>guessedLetters := guessedLetters s @ [l],
                 wrongAttemps := (if l \<in> set (currentWord s) then wrongAttemps s
                                  else wrongAttemps s + 1)\<rparr>)"
  using assms by (simp add: keyboardClick_def keyboardDisabled_def checkGuessedLetter_def)

lemma winEffect_fields:
  "guessedLetters (winEffect s) = guessedLetters s"
  "wrongAttemps (winEffect s) = wrongAttemps s"
  "currentWord (winEffect s) = currentWord s"
  "language (winEffect s) = language s"
  "fetchesInFlight (winEffect s) = fetchesInFlight s"
  "winGame (winEffect s) = (winGame s \<or> hasWon s)"
  "hasWon (winEffect s) = hasWon s"
  by (simp_all add: winEffect_def hasWon_def)

lemma click_new_agrees:
  assumes "\<not> gameOver s" and "l \<notin> set (guessedLetters s)"
  shows "winGame (keyboardClick l s) \<longleftrightarrow> hasWon (keyboardClick l s)"
proof -
  from assms(1) have "\<not> winGame s" by (simp add: gameOver_def)
  then show ?thesis
    by (simp add: keyboardClick_new [OF assms] winEffect_fields)
qed

lemma click_keeps_agreement:
  assumes "winGame s \<longleftrightarrow> hasWon s"
  shows "winGame (keyboardClick l s) \<longleftrightarrow> hasWon (keyboardClick l s)"
proof (cases "gameOver s \<or> l \<in> set (guessedLetters s)")
  case True
  then have "keyboardClick l s = s"
    using keyboardClick_over keyboardClick_guessed by blast
  with assms show ?thesis by simp
next
  case False
  then show ?thesis using click_new_agrees by blast
qed

lemma guesses_keep_agreement:
  "(winGame s \<longleftrightarrow> hasWon s) \<Longrightarrow> (winGame (guesses s ls) \<longleftrightarrow> hasWon (guesses s ls))"
proof (induction ls arbitrary: s)
  case Nil
  then show ?case by (simp add: guesses_Nil)
next
  case (Cons l ls)
  from Cons.prems have "winGame (keyboardClick l s) \<longleftrightarrow> hasWon (keyboardClick l s)"
    by (rule click_keeps_agreement)
  then show ?case unfolding guesses_Cons by (rule Cons.IH)
qed

lemma hasWon_iff: "hasWon s \<longleftrightarrow> set (currentWord s) \<subseteq> set (guessedLetters s)"
  by (auto simp: hasWon_def list_all_iff)

lemma misses:
  assumes "\<not> winGame s" and "\<not> hasWon s" and "distinct ls"
    and "set ls \<inter> set (currentWord s) = {}" and "set ls \<inter> set (guessedLetters s) = {}"
    and "wrongAttemps s + length ls \<le> 8"
  shows "wrongAttemps (guesses s ls) = wrongAttemps s + length ls \<and> \<not> winGame (guesses s ls)
     \<and> guessedLetters (guesses s ls) = guessedLetters s @ ls
     \<and> currentWord (guesses s ls) = currentWord s"
  using assms
proof (induction ls arbitrary: s)
  case Nil
  then show ?case by (simp add: guesses_Nil)
next
  case (Cons l ls)
  let ?t = "keyboardClick l s"
  from Cons.prems have notover: "\<not> gameOver s" by (simp add: gameOver_def)
  from Cons.prems have fresh: "l \<notin> set (guessedLetters s)" and miss: "l \<notin> set (currentWord s)"
    by auto
  have t: "?t = winEffect (s\<lparr>guessedLetters := guessedLetters s @ [l],
                 wrongAttemps := wrongAttemps s + 1\<rparr>)"
    using keyboardClick_new [OF notover fresh] miss by simp
  from Cons.prems(2) obtain c where c: "c \<in> set (currentWord s)" "c \<notin> set (guessedLetters s)"
    by (auto simp: hasWon_iff)
  with miss have "c \<noteq> l" by auto
  with c have nw: "\<not> hasWon (s\<lparr>guessedLetters := guessedLetters s @ [l],
                 wrongAttemps := wrongAttemps s + 1\<rparr>)"
    by (auto simp: hasWon_iff)
  have f: "wrongAttemps ?t = wrongAttemps s + 1" "guessedLetters ?t = guessedLetters s @ [l]"
    "currentWord ?t = currentWord s" "\<not> winGame ?t" "\<not> hasWon ?t"
    using nw Cons.prems(1) by (simp_all add: t winEffect_fields)
  have "wrongAttemps (guesses ?t ls) = wrongAttemps ?t + length ls \<and> \<not> winGame (guesses ?t ls)
     \<and> guessedLetters (guesses ?t ls) = guessedLetters ?t @ ls
     \<and> currentWord (guesses ?t ls) = currentWord ?t"
  proof (rule Cons.IH)
    show "\<not> winGame ?t" "\<not> hasWon ?t" by (rule f)+
    show "distinct ls" using Cons.prems(3) by simp
    show "set ls \<inter> set (currentWord ?t) = {}" using Cons.prems(4) by (auto simp: f)
    show "set ls \<inter> set (guessedLetters ?t) = {}" using Cons.prems(3,5) by (auto simp: f)
    show "wrongAttemps ?t + length ls \<le> 8" using Cons.prems(6) by (simp add: f)
  qed
  then show ?case by (simp add: guesses_Cons f)
qed

subsection \<open>The example runs, evaluated\<close>

lemma js_values:
  "js ''cat'' = [99, 97, 116]" "js ''Cat'' = [67, 97, 116]" "js ''dog'' = [100, 111, 103]"
  "js ''a'' = [97]" "js '' '' = [32]" "js ''en'' = [101, 110]" "js ''fr'' = [102, 114]"
  "js ''arbol'' = [97, 114, 98, 111, 108]"
  by (simp_all add: js_def)

lemma waiting_value:
  "waiting = \<lparr>currentWord = [32], guessedLetters = [], winGame = False, wrongAttemps = 0,
     language = Some En, fetchesInFlight = 1\<rparr>"
  by (simp add: waiting_def setLanguage_def initial_def placeholder_def js_def)

lemma extract_cat: "extractWord latin1 (Some En) r cat_response = Inr [99, 97, 116]"
  by (simp add: extractWord_def cat_response_def andThen_def field_def latin1_def
      latin1_lower_def js_values)

lemma extract_a: "extractWord latin1 (Some En) r a_response = Inr [97]"
  by (simp add: extractWord_def a_response_def andThen_def field_def latin1_def
      latin1_lower_def js_values)

lemma cat_fresh_value:
  "cat_fresh = \<lparr>currentWord = [99, 97, 116], guessedLetters = [], winGame = False,
     wrongAttemps = 0, language = Some En, fetchesInFlight = 0\<rparr>"
  by (simp add: cat_fresh_def getNewWord_resume_def andThen_def waiting_value [unfolded waiting_def]
      extract_cat)

lemma click_value:
  "keyboardClick l \<lparr>currentWord = w, guessedLetters = g, winGame = False, wrongAttemps = n,
     language = lg, fetchesInFlight = k\<rparr> =
   (if n > 7 \<or> l \<in> set g then \<lparr>currentWord = w, guessedLetters = g, winGame = False,
       wrongAttemps = n, language = lg, fetchesInFlight = k\<rparr>
    else \<lparr>currentWord = w, guessedLetters = g @ [l], winGame = (set w \<subseteq> set (g @ [l])),
       wrongAttemps = (if l \<in> set w then n else n + 1), language = lg, fetchesInFlight = k\<rparr>)"
  by (auto simp: keyboardClick_def keyboardDisabled_def gameOver_def checkGuessedLetter_def
      winEffect_def hasWon_def list_all_iff Let_def)

lemma cat_won_value:
  "cat_won = \<lparr>currentWord = [99, 97, 116], guessedLetters = [99, 97, 116], winGame = True,
     wrongAttemps = 0, language = Some En, fetchesInFlight = 0\<rparr>"
  by (simp add: cat_won_def cat_fresh_value js_values guesses_def click_value)

lemma early_click_value:
  "keyboardClick 97 waiting = \<lparr>currentWord = [32], guessedLetters = [97], winGame = False,
     wrongAttemps = 1, language = Some En, fetchesInFlight = 1\<rparr>"
  by (simp add: waiting_value click_value)

lemma early_guess_value:
  "early_guess = \<lparr>currentWord = [97], guessedLetters = [97], winGame = False,
     wrongAttemps = 1, language = Some En, fetchesInFlight = 0\<rparr>"
  by (simp add: early_guess_def early_click_value getNewWord_resume_def andThen_def extract_a)

lemma dog_misses:
  "guesses dog_fresh [120, 121, 122, 113, 106, 118, 119] =
     \<lparr>currentWord = [100, 111, 103], guessedLetters = [120, 121, 122, 113, 106, 118, 119],
      winGame = False, wrongAttemps = 7, language = Some En, fetchesInFlight = 0\<rparr>"
  by (simp add: dog_fresh_def js_values guesses_def click_value)

subsection \<open>C1: the win flag and the guessed letters\<close>

text \<open>
  C1, as the code has it. The win flag is recomputed when the guessed list changes, not when
  the word arrives. So: from a state in which the flag agrees with the guessed letters (the
  flag is set iff every letter of the word is guessed), every sequence of guesses leads to
  a state in which it agrees; and in any state in which the game is not over, a guess of a
  letter not guessed before makes the flag agree.
\<close>

theorem win_flag_agrees:
  "((winGame s \<longleftrightarrow> hasWon s) \<longrightarrow> (winGame (guesses s ls) \<longleftrightarrow> hasWon (guesses s ls))) \<and>
   (\<not> gameOver s \<and> l \<notin> set (guessedLetters s) \<longrightarrow>
      (winGame (keyboardClick l s) \<longleftrightarrow> hasWon (keyboardClick l s)))"
  using guesses_keep_agreement click_new_agrees by blast

theorem win_flag_agrees_witness:
  "(winGame cat_fresh \<longleftrightarrow> hasWon cat_fresh) \<and>
   (winGame (guesses cat_fresh (js ''cat'')) \<longleftrightarrow> hasWon (guesses cat_fresh (js ''cat''))) \<and>
   \<not> gameOver early_guess \<and> 98 \<notin> set (guessedLetters early_guess) \<and>
   (winGame (keyboardClick 98 early_guess) \<longleftrightarrow> hasWon (keyboardClick 98 early_guess))"
proof -
  have h1: "winGame cat_fresh \<longleftrightarrow> hasWon cat_fresh"
    by (simp add: cat_fresh_value hasWon_def)
  have h2: "\<not> gameOver early_guess \<and> 98 \<notin> set (guessedLetters early_guess)"
    by (simp add: early_guess_value gameOver_def)
  from h1 h2 win_flag_agrees [of cat_fresh "js ''cat''" 98]
    win_flag_agrees [of early_guess "[]" 98]
  show ?thesis by blast
qed

text \<open>
  C1 as the claim states it fails: the player clicks a while the word is on its way, the
  word a arrives, and the flag is not set although every letter of the word is guessed; a
  further click on a changes nothing.
\<close>

theorem win_flag_stale_counterexample:
  "\<not> (winGame (guesses early_guess [97]) \<longleftrightarrow> hasWon (guesses early_guess [97]))"
  by (simp add: early_guess_value guesses_def click_value hasWon_def)

subsection \<open>C2: what a guess does\<close>

text \<open>
  C2. A guess changes nothing when the letter is already guessed or the game is over.
  Otherwise it appends the letter to the guessed letters and adds one to the wrong attempts
  exactly when the letter does not occur in the word; the word and the language stay. The
  count never decreases, and it changes only on a letter that is not in the word.
\<close>

theorem guess_effect:
  "(l \<in> set (guessedLetters s) \<or> gameOver s \<longrightarrow> keyboardClick l s = s) \<and>
   (l \<notin> set (guessedLetters s) \<and> \<not> gameOver s \<longrightarrow>
      guessedLetters (keyboardClick l s) = guessedLetters s @ [l] \<and>
      wrongAttemps (keyboardClick l s) =
        (if l \<in> set (currentWord s) then wrongAttemps s else wrongAttemps s + 1) \<and>
      currentWord (keyboardClick l s) = currentWord s \<and>
      language (keyboardClick l s) = language s) \<and>
   wrongAttemps s \<le> wrongAttemps (keyboardClick l s) \<and>
   (wrongAttemps (keyboardClick l s) \<noteq> wrongAttemps s \<longrightarrow> l \<notin> set (currentWord s))"
proof (cases "gameOver s \<or> l \<in> set (guessedLetters s)")
  case True
  then have "keyboardClick l s = s"
    using keyboardClick_over keyboardClick_guessed by blast
  with True show ?thesis by auto
next
  case False
  then have "keyboardClick l s =
     winEffect (s\<lparr>guessedLetters := guessedLetters s @ [l],
                 wrongAttemps := (if l \<in> set (currentWord s) then wrongAttemps s
                                  else wrongAttemps s + 1)\<rparr>)"
    using keyboardClick_new by blast
  with False show ?thesis by (simp add: winEffect_fields)
qed

theorem guess_effect_witness:
  "120 \<notin> set (guessedLetters dog_fresh) \<and> \<not> gameOver dog_fresh \<and>
   guessedLetters (keyboardClick 120 dog_fresh) = [120] \<and>
   wrongAttemps (keyboardClick 120 dog_fresh) = 1 \<and>
   wrongAttemps (keyboardClick 120 dog_fresh) \<noteq> wrongAttemps dog_fresh \<and>
   120 \<notin> set (currentWord dog_fresh) \<and>
   120 \<in> set (guessedLetters (keyboardClick 120 dog_fresh)) \<and>
   keyboardClick 120 (keyboardClick 120 dog_fresh) = keyboardClick 120 dog_fresh"
proof -
  have h1: "120 \<notin> set (guessedLetters dog_fresh) \<and> \<not> gameOver dog_fresh"
    by (simp add: dog_fresh_def gameOver_def)
  have h2: "guessedLetters dog_fresh @ [120] = [120]" "wrongAttemps dog_fresh + 1 = 1"
    "wrongAttemps dog_fresh \<noteq> 1"
    by (simp_all add: dog_fresh_def)
  have h3: "120 \<notin> set (currentWord dog_fresh)"
    by (simp add: dog_fresh_def js_values)
  from h1 guess_effect [of 120 dog_fresh]
  have r: "guessedLetters (keyboardClick 120 dog_fresh) = guessedLetters dog_fresh @ [120] \<and>
     wrongAttemps (keyboardClick 120 dog_fresh) =
       (if 120 \<in> set (currentWord dog_fresh) then wrongAttemps dog_fresh
        else wrongAttemps dog_fresh + 1)"
    by blast
  with h2 h3 have r': "guessedLetters (keyboardClick 120 dog_fresh) = [120]"
    "wrongAttemps (keyboardClick 120 dog_fresh) = 1"
    by simp_all
  have m: "120 \<in> set (guessedLetters (keyboardClick 120 dog_fresh))"
    by (simp add: r')
  from m guess_effect [of 120 "keyboardClick 120 dog_fresh"]
  have i: "keyboardClick 120 (keyboardClick 120 dog_fresh) = keyboardClick 120 dog_fresh"
    by blast
  from h1 h2(3) h3 r' m i show ?thesis by simp
qed

subsection \<open>C3: when the game is over\<close>

text \<open>
  C3. The game is over iff the win flag is set or the wrong attempts exceed 7. In a game
  on a word that is not empty, started with nothing guessed, up to 7 different letters that
  are not in the word leave the game open, and the 8th ends it.
\<close>

theorem game_over_threshold:
  "gameOver t = (winGame t \<or> wrongAttemps t > 7) \<and>
   (guessedLetters s = [] \<and> wrongAttemps s = 0 \<and> \<not> winGame s \<and> currentWord s \<noteq> [] \<and>
    distinct ls \<and> set ls \<inter> set (currentWord s) = {} \<longrightarrow>
      (length ls \<le> 7 \<longrightarrow> \<not> gameOver (guesses s ls)) \<and>
      (length ls = 8 \<longrightarrow> gameOver (guesses s ls) \<and> wrongAttemps (guesses s ls) = 8))"
proof -
  have a: "gameOver t = (winGame t \<or> wrongAttemps t > 7)" by (simp add: gameOver_def)
  have b: "(length ls \<le> 7 \<longrightarrow> \<not> gameOver (guesses s ls)) \<and>
      (length ls = 8 \<longrightarrow> gameOver (guesses s ls) \<and> wrongAttemps (guesses s ls) = 8)"
    if h: "guessedLetters s = []" "wrongAttemps s = 0" "\<not> winGame s" "currentWord s \<noteq> []"
      "distinct ls" "set ls \<inter> set (currentWord s) = {}"
  proof -
    from h have nw: "\<not> hasWon s" by (cases "currentWord s") (auto simp: hasWon_iff)
    have m: "wrongAttemps s + length ls \<le> 8 \<Longrightarrow>
       wrongAttemps (guesses s ls) = wrongAttemps s + length ls \<and> \<not> winGame (guesses s ls)
       \<and> guessedLetters (guesses s ls) = guessedLetters s @ ls
       \<and> currentWord (guesses s ls) = currentWord s"
      using misses [of s ls] h nw by simp
    show ?thesis using m h(2) by (auto simp: gameOver_def)
  qed
  from a b show ?thesis by blast
qed

theorem game_over_threshold_witness:
  "guessedLetters dog_fresh = [] \<and> wrongAttemps dog_fresh = 0 \<and> \<not> winGame dog_fresh \<and>
   currentWord dog_fresh \<noteq> [] \<and>
   distinct [120, 121, 122, 113, 106, 118, 119, 107 :: nat] \<and>
   set [120, 121, 122, 113, 106, 118, 119, 107] \<inter> set (currentWord dog_fresh) = {} \<and>
   \<not> gameOver (guesses dog_fresh [120, 121, 122, 113, 106, 118, 119]) \<and>
   gameOver (guesses dog_fresh [120, 121, 122, 113, 106, 118, 119, 107]) \<and>
   wrongAttemps (guesses dog_fresh [120, 121, 122, 113, 106, 118, 119, 107]) = 8"
proof -
  have h: "guessedLetters dog_fresh = []" "wrongAttemps dog_fresh = 0" "\<not> winGame dog_fresh"
    "currentWord dog_fresh \<noteq> []"
    "set [120, 121, 122, 113, 106, 118, 119, 107] \<inter> set (currentWord dog_fresh) = {}"
    "set [120, 121, 122, 113, 106, 118, 119] \<inter> set (currentWord dog_fresh) = {}"
    by (simp_all add: dog_fresh_def js_values)
  have d: "distinct [120, 121, 122, 113, 106, 118, 119, 107 :: nat]"
    "distinct [120, 121, 122, 113, 106, 118, 119 :: nat]"
    by simp_all
  from h d game_over_threshold [of dog_fresh dog_fresh "[120, 121, 122, 113, 106, 118, 119]"]
  have seven: "\<not> gameOver (guesses dog_fresh [120, 121, 122, 113, 106, 118, 119])"
    by simp
  from h d
    game_over_threshold [of dog_fresh dog_fresh "[120, 121, 122, 113, 106, 118, 119, 107]"]
  have eight: "gameOver (guesses dog_fresh [120, 121, 122, 113, 106, 118, 119, 107]) \<and>
     wrongAttemps (guesses dog_fresh [120, 121, 122, 113, 106, 118, 119, 107]) = 8"
    by simp
  from h d seven eight show ?thesis by simp
qed

subsection \<open>C4: nothing changes once the game is over\<close>

text \<open>
  C4. Once the game is over, no sequence of guesses changes the session state: the word,
  the guessed letters, the wrong attempts, the win flag and the language are all as before.
\<close>

theorem over_is_final: "gameOver s \<Longrightarrow> guesses s ls = s"
  by (rule guesses_over)

theorem over_is_final_witness:
  "gameOver cat_won \<and> guesses cat_won (js ''dog'') = cat_won"
proof -
  have h: "gameOver cat_won" by (simp add: cat_won_value gameOver_def)
  from h over_is_final [of cat_won "js ''dog''"] show ?thesis by simp
qed

subsection \<open>C5: guesses while the word is not there\<close>

lemma blank_not_in_alphabet: "32 \<notin> set alphabet"
  by (simp add: alphabet_def js_def)

lemma a_in_alphabet: "97 \<in> set alphabet"
  by (simp add: alphabet_def js_def)

text \<open>
  C5, as the code has it. While the word is still the placeholder, no letter box is
  rendered, but the keyboard is disabled only when the game is over: in a game that is not
  over, a click on a letter of the keyboard that is not guessed yet appends the letter to
  the guessed letters and counts as a wrong attempt.
\<close>

theorem guess_before_word:
  "currentWord s = placeholder \<longrightarrow>
     displayedWord s = None \<and>
     (keyboardDisabled s \<longleftrightarrow> gameOver s) \<and>
     (\<not> gameOver s \<and> l \<in> set alphabet \<and> l \<notin> set (guessedLetters s) \<and>
      set (guessedLetters s) \<subseteq> set alphabet \<longrightarrow>
        keyboardClick l s =
          s\<lparr>guessedLetters := guessedLetters s @ [l], wrongAttemps := wrongAttemps s + 1\<rparr>)"
proof (intro impI conjI)
  assume w: "currentWord s = placeholder"
  show "displayedWord s = None" using w by (simp add: displayedWord_def)
  show "keyboardDisabled s \<longleftrightarrow> gameOver s" by (simp add: keyboardDisabled_def)
  assume h: "\<not> gameOver s \<and> l \<in> set alphabet \<and> l \<notin> set (guessedLetters s) \<and>
      set (guessedLetters s) \<subseteq> set alphabet"
  from w have word: "currentWord s = [32]" by (simp add: placeholder_def js_def)
  from h blank_not_in_alphabet have l: "l \<noteq> 32" and g: "32 \<notin> set (guessedLetters s)"
    by auto
  let ?t = "s\<lparr>guessedLetters := guessedLetters s @ [l], wrongAttemps := wrongAttemps s + 1\<rparr>"
  from l g have "\<not> hasWon ?t" by (simp add: hasWon_def word)
  then have "winEffect ?t = ?t" by (simp add: winEffect_def)
  moreover from h l have "keyboardClick l s = winEffect ?t"
    using keyboardClick_new [of s l] by (simp add: word)
  ultimately show "keyboardClick l s = ?t" by simp
qed

theorem guess_before_word_witness:
  "currentWord waiting = placeholder \<and> displayedWord waiting = None \<and>
   \<not> gameOver waiting \<and> 97 \<in> set alphabet \<and> 97 \<notin> set (guessedLetters waiting) \<and>
   set (guessedLetters waiting) \<subseteq> set alphabet \<and>
   keyboardClick 97 waiting =
     waiting\<lparr>guessedLetters := guessedLetters waiting @ [97],
             wrongAttemps := wrongAttemps waiting + 1\<rparr>"
proof -
  have h1: "currentWord waiting = placeholder"
    by (simp add: waiting_value placeholder_def js_def)
  have h2: "\<not> gameOver waiting \<and> 97 \<in> set alphabet \<and> 97 \<notin> set (guessedLetters waiting) \<and>
     set (guessedLetters waiting) \<subseteq> set alphabet"
    by (simp add: waiting_value gameOver_def a_in_alphabet)
  from h1 h2 guess_before_word [of waiting 97] show ?thesis by blast
qed

text \<open>
  C5 as the claim states it fails: the language is chosen, the request for the word is on
  its way, the keyboard is rendered and enabled, and a click on a changes the state.
\<close>

theorem guess_before_word_counterexample:
  "currentWord waiting = placeholder \<and> fetchesInFlight waiting = 1 \<and>
   keyboardRendered waiting \<and> \<not> keyboardDisabled waiting \<and>
   keyboardClick 97 waiting \<noteq> waiting"
proof -
  have "keyboardClick 97 waiting \<noteq> waiting"
    unfolding early_click_value by (simp add: waiting_value)
  then show ?thesis
    by (simp add: waiting_value placeholder_def js_def keyboardRendered_def
        keyboardDisabled_def gameOver_def)
qed

subsection \<open>C6: reset\<close>

lemma resetGame_fields:
  "wrongAttemps (resetGame s) = 0"
  "guessedLetters (resetGame s) = []"
  "currentWord (resetGame s) = currentWord s"
  "language (resetGame s) = language s"
  "fetchesInFlight (resetGame s) = fetchesInFlight s + 1"
  "winGame (resetGame s) = (currentWord s = [])"
  by (cases "currentWord s"; simp add: resetGame_def winEffect_fields hasWon_def)+

lemma extract_error_body: "extractWord latin1 (Some En) r errorBody = Inl TypeError"
  by (simp add: extractWord_def errorBody_def andThen_def field_def js_def)

lemma reset_cat_won_value:
  "resetGame cat_won = \<lparr>currentWord = [99, 97, 116], guessedLetters = [], winGame = False,
     wrongAttemps = 0, language = Some En, fetchesInFlight = 1\<rparr>"
  by (simp add: resetGame_def cat_won_value winEffect_def hasWon_def)

text \<open>
  C6, as the code has it. After \<open>resetGame\<close> the wrong attempts are 0, the guessed
  letters are empty, the win flag is false when the word before was not empty, and one more
  request for a word is on its way; the word is still the one before. When the response
  arrives and a word can be taken from it, that word becomes the current word and nothing
  else changes.
\<close>

theorem reset_effect:
  "wrongAttemps (resetGame s) = 0 \<and> guessedLetters (resetGame s) = [] \<and>
   (currentWord s \<noteq> [] \<longrightarrow> \<not> winGame (resetGame s)) \<and>
   currentWord (resetGame s) = currentWord s \<and>
   language (resetGame s) = language s \<and>
   fetchesInFlight (resetGame s) = fetchesInFlight s + 1 \<and>
   (andThen response (extractWord P (language s) r) = Inr w \<longrightarrow>
      getNewWord_resume P r response (resetGame s) =
        (resetGame s)\<lparr>currentWord := w, fetchesInFlight := fetchesInFlight s\<rparr>)"
  by (simp add: resetGame_fields getNewWord_resume_def)

theorem reset_effect_witness:
  "currentWord cat_won \<noteq> [] \<and> \<not> winGame (resetGame cat_won) \<and>
   andThen (Inr a_response) (extractWord latin1 (language cat_won) half) = Inr (js ''a'') \<and>
   getNewWord_resume latin1 half (Inr a_response) (resetGame cat_won) =
     (resetGame cat_won)\<lparr>currentWord := js ''a'', fetchesInFlight := fetchesInFlight cat_won\<rparr>"
proof -
  have h1: "currentWord cat_won \<noteq> []" by (simp add: cat_won_value)
  have h2: "andThen (Inr a_response) (extractWord latin1 (language cat_won) half) =
     Inr (js ''a'')"
    by (simp add: andThen_def cat_won_value extract_a js_values)
  from h1 h2 reset_effect [of cat_won "Inr a_response" latin1 half "js ''a''"]
  show ?thesis by blast
qed

text \<open>
  C6 as the claim states it fails: after a won game on cat, \<open>resetGame\<close> leaves the
  word cat in place while the request is on its way; and when the response is the error
  body of the proxy, no word can be taken from it and the word stays cat.
\<close>

theorem reset_keeps_word_counterexample:
  "currentWord (resetGame cat_won) = js ''cat'' \<and>
   fetchesInFlight (resetGame cat_won) = 1 \<and>
   extractWord latin1 (language (resetGame cat_won)) half errorBody = Inl TypeError \<and>
   currentWord (getNewWord_resume latin1 half (Inr errorBody) (resetGame cat_won)) =
     js ''cat''"
  by (simp add: reset_cat_won_value js_values extract_error_body getNewWord_resume_def
      andThen_def)

section \<open>Properties of the word extraction\<close>

subsection \<open>The index drawn\<close>

lemma roundHalfEven_lower: "M div 2 ^ s \<le> roundHalfEven M s"
  by (simp add: roundHalfEven_def Let_def)

lemma roundHalfEven_zero: "roundHalfEven M 0 = M"
  by (simp add: roundHalfEven_def Let_def)

lemma roundHalfEven_upper: "2 * (roundHalfEven M s * 2 ^ s) \<le> 2 * M + 2 ^ s"
proof -
  define q where "q = M div 2 ^ s"
  define rest where "rest = M mod 2 ^ s"
  have M: "M = q * 2 ^ s + rest" by (simp only: q_def rest_def div_mult_mod_eq)
  show ?thesis
  proof (cases "2 ^ s < 2 * rest \<or> (2 * rest = 2 ^ s \<and> odd q)")
    case True
    then have R: "roundHalfEven M s = q + 1"
      by (simp add: roundHalfEven_def Let_def q_def rest_def)
    from True have "(2::nat) ^ s \<le> 2 * rest" by auto
    then show ?thesis unfolding R using M by (simp add: algebra_simps)
  next
    case False
    then have R: "roundHalfEven M s = q"
      by (simp add: roundHalfEven_def Let_def q_def rest_def)
    show ?thesis unfolding R using M by (simp add: algebra_simps)
  qed
qed

lemma excess_bits:
  assumes "0 < floorlog 2 M - 53"
  shows "2 ^ (52 + (floorlog 2 M - 53)) \<le> M"
proof -
  have "2 ^ ((53 + (floorlog 2 M - 53)) - 1) \<le> M"
    by (rule floorlog_geD) (use assms in simp_all)
  then show ?thesis by simp
qed

lemma scaled_index_le:
  "randomIndex r n * 2 ^ scale r \<le> roundHalfEven (mant r * n) (floorlog 2 (mant r * n) - 53)
      * 2 ^ (floorlog 2 (mant r * n) - 53)"
  by (simp add: randomIndex_def Let_def)

lemma randomIndex_lower:
  "randomIndex r n * 2 ^ scale r * 2 ^ 53 \<le> mant r * n * (2 ^ 53 + 1)"
proof -
  define M where "M = mant r * n"
  define s where "s = floorlog 2 M - 53"
  define A where "A = randomIndex r n * 2 ^ scale r"
  define B where "B = roundHalfEven M s * 2 ^ s"
  define P where "P = (2::nat) ^ s"
  have AB: "A \<le> B" unfolding A_def B_def M_def s_def by (rule scaled_index_le)
  have goal: "A * 9007199254740992 \<le> M * 9007199254740993"
  proof (cases "s = 0")
    case True
    then have "B = M" by (simp add: B_def roundHalfEven_zero)
    with AB show ?thesis by simp
  next
    case False
    then have "2 ^ (52 + s) \<le> M" unfolding s_def using excess_bits by simp
    then have big: "P * 4503599627370496 \<le> M" by (simp add: P_def power_add mult.commute)
    have "2 * B \<le> 2 * M + P" unfolding B_def P_def by (rule roundHalfEven_upper)
    with AB big show ?thesis by linarith
  qed
  then show ?thesis by (simp add: A_def M_def)
qed

lemma unit_double_below_one:
  assumes "isUnitDouble r"
  shows "mant r * (2 ^ 53 + 1) < 2 ^ scale r * 2 ^ 53"
proof -
  define P where "P = (2::nat) ^ scale r"
  from assms have m: "mant r < 9007199254740992" "mant r < P"
    by (simp_all add: isUnitDouble_def P_def)
  have "mant r * 9007199254740993 < P * 9007199254740992"
  proof (cases "scale r \<le> 53")
    case True
    then have "(2::nat) ^ scale r \<le> 2 ^ 53" by (rule power_increasing) simp
    then have "P \<le> 9007199254740992" by (simp add: P_def)
    with m show ?thesis by linarith
  next
    case False
    then have "54 \<le> scale r" by simp
    then have "(2::nat) ^ 54 \<le> 2 ^ scale r" by (rule power_increasing) simp
    then have "18014398509481984 \<le> P" by (simp add: P_def)
    with m show ?thesis by linarith
  qed
  then show ?thesis by (simp add: P_def)
qed

lemma randomIndex_in_range:
  assumes "isUnitDouble r" and "0 < n"
  shows "randomIndex r n < n"
proof -
  define C where "C = (2::nat) ^ scale r * 2 ^ 53"
  have "randomIndex r n * C \<le> n * (mant r * (2 ^ 53 + 1))"
    using randomIndex_lower [of r n] by (simp add: C_def mult.assoc mult.left_commute mult.commute)
  also have "\<dots> < n * C"
    unfolding C_def
    by (rule mult_strict_left_mono [OF unit_double_below_one [OF assms(1)] assms(2)])
  finally show ?thesis by simp
qed

lemma excess_le_scale:
  assumes "isUnitDouble r" and "0 < n" and "n \<le> 2 ^ 53"
  shows "floorlog 2 (mant r * n) - 53 \<le> scale r"
proof (cases "0 < floorlog 2 (mant r * n) - 53")
  case False
  then show ?thesis by simp
next
  case True
  define s where "s = floorlog 2 (mant r * n) - 53"
  from True have "2 ^ (52 + s) \<le> mant r * n" unfolding s_def by (rule excess_bits)
  also have "mant r * n < 2 ^ scale r * n"
    using assms(1,2) by (simp add: isUnitDouble_def)
  also have "2 ^ scale r * n \<le> 2 ^ scale r * 2 ^ 53"
    using assms(3) by (rule mult_left_mono) simp
  also have "\<dots> = 2 ^ (scale r + 53)" by (simp add: power_add)
  finally have "(2::nat) ^ (52 + s) < 2 ^ (scale r + 53)" .
  then have "52 + s < scale r + 53" by (simp only: power_strict_increasing_iff one_less_numeral_iff semiring_norm)
  then show ?thesis unfolding s_def by simp
qed

lemma randomIndex_upper:
  assumes "isUnitDouble r" and "0 < n" and "n \<le> 2 ^ 53"
  shows "mant r * n < (randomIndex r n + 1) * 2 ^ scale r"
proof -
  define M where "M = mant r * n"
  define s where "s = floorlog 2 M - 53"
  define R where "R = roundHalfEven M s"
  define D where "D = (2::nat) ^ (scale r - s)"
  have sk: "s \<le> scale r" unfolding s_def M_def using assms by (rule excess_le_scale)
  then have pk: "(2::nat) ^ scale r = D * 2 ^ s"
    by (simp add: D_def power_add [symmetric])
  have D: "0 < D" by (simp add: D_def)
  have i: "randomIndex r n = R div D"
    by (simp add: randomIndex_def Let_def M_def [symmetric] s_def [symmetric] R_def [symmetric] pk)
  have "M div 2 ^ s \<le> R" unfolding R_def by (rule roundHalfEven_lower)
  also have "R < (R div D + 1) * D"
    using D by (simp add: dividend_less_div_times add.commute)
  finally have "M div 2 ^ s + 1 \<le> (R div D + 1) * D" by simp
  then have a: "(M div 2 ^ s + 1) * 2 ^ s \<le> ((R div D + 1) * D) * 2 ^ s"
    by (rule mult_right_mono) simp
  have b: "M < (M div 2 ^ s + 1) * 2 ^ s"
    by (simp add: dividend_less_div_times add.commute)
  from b a have "M < ((R div D + 1) * D) * 2 ^ s" by (rule less_le_trans)
  then have "M < (R div D + 1) * (D * 2 ^ s)" by (simp only: mult.assoc)
  then show ?thesis unfolding i pk M_def .
qed

lemma randomIndex_exact:
  assumes "isUnitDouble r" and "0 < n" and "n \<le> 2 ^ 53"
    and lo: "i * 2 ^ scale r \<le> mant r * n"
    and hi: "mant r * n * (2 ^ 53 + 1) < (i + 1) * 2 ^ scale r * 2 ^ 53"
  shows "randomIndex r n = i"
proof -
  have "i * 2 ^ scale r < (randomIndex r n + 1) * 2 ^ scale r"
    using lo randomIndex_upper [OF assms(1-3)] by (rule le_less_trans)
  then have a: "i < randomIndex r n + 1" by (simp only: mult_less_cancel2)
  have "randomIndex r n * 2 ^ scale r * 2 ^ 53 \<le> mant r * n * (2 ^ 53 + 1)"
    by (rule randomIndex_lower)
  then have "randomIndex r n * 2 ^ scale r * 2 ^ 53 < (i + 1) * 2 ^ scale r * 2 ^ 53"
    using hi by (rule le_less_trans)
  then have "randomIndex r n * (2 ^ scale r * 2 ^ 53) < (i + 1) * (2 ^ scale r * 2 ^ 53)"
    by (simp only: mult.assoc)
  then have b: "randomIndex r n < i + 1" by (simp only: mult_less_cancel2)
  from a b show ?thesis by simp
qed

lemma randomIndex_seven_tenths: "randomIndex seven_tenths 10 = 7"
proof -
  have "floorlog 2 31525197391593470 \<le> 55" by (rule floorlog_leI) simp_all
  moreover have "55 \<le> floorlog 2 31525197391593470" by (rule floorlog_geI) simp_all
  ultimately have f: "floorlog 2 31525197391593470 = 55" by simp
  show ?thesis by (simp add: randomIndex_def seven_tenths_def Let_def f roundHalfEven_def)
qed

lemma randomIndex_half: "randomIndex half 1 = 0"
  using randomIndex_in_range [of half 1] by (simp add: isUnitDouble_def half_def)

subsection \<open>C7: the word taken from a response\<close>

lemma extract_english:
  assumes "field (js ''word'') kvs = Some (JArr (JStr w # ws))"
  shows "extractWord P (Some En) r (JObj kvs) = Inr (toLowerCase P w)"
  using assms by (simp add: extractWord_def andThen_def)

lemma extract_spanish:
  assumes "field (js ''results'') kvs = Some (JArr xs)"
    and "randomIndex r (length xs) < length xs"
    and "xs ! randomIndex r (length xs) = JObj entry"
    and "field (js ''Palabra'') entry = Some (JStr p)"
  shows "extractWord P (Some Es) r (JObj kvs) =
     Inr (stripMarks (normalizeNFD P (toLowerCase P p)))"
  using assms by (simp add: extractWord_def andThen_def)

lemma arbol_lowered: "toLowerCase latin1 [193, 82, 66, 79, 76] = [225, 114, 98, 111, 108]"
  by (simp add: latin1_def latin1_lower_def)

lemma arbol_decomposed:
  "normalizeNFD latin1 [225, 114, 98, 111, 108] = [97, 0x301, 114, 98, 111, 108]"
  by (simp add: latin1_def latin1_decompose_def latin1_decomposition_def)

lemma arbol_stripped: "stripMarks [97, 0x301, 114, 98, 111, 108] = js ''arbol''"
  by (simp add: stripMarks_def js_def)

lemma cat_lowered: "toLowerCase latin1 (js ''Cat'') = js ''cat''"
  by (simp add: latin1_def latin1_lower_def js_def)

text \<open>
  C7. For English the word is the first element of the \<open>word\<close> array of the response,
  in lower case. For Spanish it is the \<open>Palabra\<close> member of the element of the
  \<open>results\<close> array at the index \<open>Math.floor(Math.random() * length)\<close>, in lower case,
  decomposed, with the code units from U+0300 to U+036F removed. For every double \<open>r\<close>
  that \<open>Math.random()\<close> can give, that index is in range. With \<open>x\<close> the exact product
  of \<open>r\<close> and the length and \<open>j\<close> the index, \<open>x < j + 1\<close> and
  \<open>j \<le> x * (1 + 2 ^ -53)\<close>; and every \<open>r\<close> with \<open>i \<le> x\<close> and
  \<open>x * (1 + 2 ^ -53) < i + 1\<close> gives the index \<open>i\<close>. So the index is the integer
  part of \<open>x\<close>, or the next integer when the product of the doubles rounds up to it: the
  draws of each element are an interval of length \<open>1 / length\<close> up to one rounding, and
  the choice is as uniform as the draw.
\<close>

theorem word_extraction:
  "(field (js ''word'') kvs = Some (JArr (JStr w # ws)) \<longrightarrow>
      extractWord P (Some En) r (JObj kvs) = Inr (toLowerCase P w)) \<and>
   (field (js ''results'') kvs = Some (JArr xs) \<and> xs \<noteq> [] \<and> isUnitDouble r \<and>
    xs ! randomIndex r (length xs) = JObj entry \<and>
    field (js ''Palabra'') entry = Some (JStr p) \<longrightarrow>
      randomIndex r (length xs) < length xs \<and>
      extractWord P (Some Es) r (JObj kvs) =
        Inr (stripMarks (normalizeNFD P (toLowerCase P p)))) \<and>
   (isUnitDouble r \<and> 0 < n \<and> n < 2 ^ 32 \<longrightarrow>
      randomIndex r n < n \<and>
      mant r * n < (randomIndex r n + 1) * 2 ^ scale r \<and>
      randomIndex r n * 2 ^ scale r * 2 ^ 53 \<le> mant r * n * (2 ^ 53 + 1) \<and>
      (i * 2 ^ scale r \<le> mant r * n \<and>
       mant r * n * (2 ^ 53 + 1) < (i + 1) * 2 ^ scale r * 2 ^ 53 \<longrightarrow>
         randomIndex r n = i)) \<and>
   stripMarks cs = filter (\<lambda>c. c < 0x300 \<or> 0x36F < c) cs"
proof (intro conjI impI)
  show "extractWord P (Some En) r (JObj kvs) = Inr (toLowerCase P w)"
    if "field (js ''word'') kvs = Some (JArr (JStr w # ws))"
    using that by (rule extract_english)
  assume h: "field (js ''results'') kvs = Some (JArr xs) \<and> xs \<noteq> [] \<and> isUnitDouble r \<and>
    xs ! randomIndex r (length xs) = JObj entry \<and>
    field (js ''Palabra'') entry = Some (JStr p)"
  then show inr: "randomIndex r (length xs) < length xs"
    using randomIndex_in_range [of r "length xs"] by simp
  from h inr show "extractWord P (Some Es) r (JObj kvs) =
        Inr (stripMarks (normalizeNFD P (toLowerCase P p)))"
    using extract_spanish by blast
next
  assume h: "isUnitDouble r \<and> 0 < n \<and> n < 2 ^ 32"
  then show "randomIndex r n < n" using randomIndex_in_range by blast
  from h have n: "n \<le> 2 ^ 53" by simp
  with h show "mant r * n < (randomIndex r n + 1) * 2 ^ scale r"
    using randomIndex_upper by blast
  show "randomIndex r n * 2 ^ scale r * 2 ^ 53 \<le> mant r * n * (2 ^ 53 + 1)"
    by (rule randomIndex_lower)
  assume "i * 2 ^ scale r \<le> mant r * n \<and>
       mant r * n * (2 ^ 53 + 1) < (i + 1) * 2 ^ scale r * 2 ^ 53"
  with h n show "randomIndex r n = i" using randomIndex_exact by blast
next
  have "(\<lambda>c::nat. \<not> (0x300 \<le> c \<and> c \<le> 0x36F)) = (\<lambda>c. c < 0x300 \<or> 0x36F < c)"
    by (rule ext) (simp add: not_le)
  then show "stripMarks cs = filter (\<lambda>c. c < 0x300 \<or> 0x36F < c) cs"
    by (simp add: stripMarks_def)
qed

text \<open>
  The scenario: with the platform functions as they are on Latin-1, the Spanish response
  whose only \<open>Palabra\<close> is U+00C1 R B O L gives arbol, and the English response with
  the word Cat gives cat. With the draw nearest to 0.7 and ten words the product of the
  doubles is 7, and the index is 7.
\<close>

theorem word_extraction_witness:
  "extractWord latin1 (Some En) half cat_response = Inr (js ''cat'') \<and>
   extractWord latin1 (Some Es) half arbol_response = Inr (js ''arbol'') \<and>
   isUnitDouble seven_tenths \<and> randomIndex seven_tenths 10 = 7 \<and>
   mant seven_tenths * 10 < (randomIndex seven_tenths 10 + 1) * 2 ^ scale seven_tenths \<and>
   randomIndex seven_tenths 10 * 2 ^ scale seven_tenths * 2 ^ 53 \<le>
     mant seven_tenths * 10 * (2 ^ 53 + 1) \<and>
   5 * 2 ^ scale half \<le> mant half * 10 \<and>
   mant half * 10 * (2 ^ 53 + 1) < (5 + 1) * 2 ^ scale half * 2 ^ 53 \<and>
   randomIndex half 10 = 5"
proof -
  let ?entry = "fmap_of_list [(js ''Palabra'', JStr [193, 82, 66, 79, 76])]"
  let ?spanish = "fmap_of_list [(js ''results'', JArr [JObj ?entry])]"
  let ?english = "fmap_of_list [(js ''word'', JArr [JStr (js ''Cat'')])]"
  have e: "field (js ''word'') ?english = Some (JArr (JStr (js ''Cat'') # []))"
    by (simp add: field_def)
  have "extractWord latin1 (Some En) half (JObj ?english) =
     Inr (toLowerCase latin1 (js ''Cat''))"
    by (rule mp [OF conjunct1 [OF word_extraction [where P = latin1 and ws = "[]"]] e])
  then have english: "extractWord latin1 (Some En) half cat_response = Inr (js ''cat'')"
    by (simp only: cat_response_def cat_lowered)
  have u: "isUnitDouble half" by (simp add: isUnitDouble_def half_def)
  have idx: "randomIndex half (length [JObj ?entry]) = 0"
    using randomIndex_half by simp
  have s: "field (js ''results'') ?spanish = Some (JArr [JObj ?entry])
     \<and> [JObj ?entry] \<noteq> [] \<and> isUnitDouble half \<and>
     [JObj ?entry] ! randomIndex half (length [JObj ?entry]) = JObj ?entry \<and>
     field (js ''Palabra'') ?entry = Some (JStr [193, 82, 66, 79, 76])"
    unfolding idx using u by (simp add: field_def)
  have "randomIndex half (length [JObj ?entry]) < length [JObj ?entry] \<and>
     extractWord latin1 (Some Es) half (JObj ?spanish) =
     Inr (stripMarks (normalizeNFD latin1 (toLowerCase latin1 [193, 82, 66, 79, 76])))"
    by (rule mp [OF conjunct1 [OF conjunct2 [OF word_extraction [where P = latin1]]] s])
  then have spanish: "extractWord latin1 (Some Es) half arbol_response = Inr (js ''arbol'')"
    by (simp only: arbol_response_def arbol_lowered arbol_decomposed arbol_stripped)
  have b: "isUnitDouble seven_tenths \<and> (0::nat) < 10 \<and> (10::nat) < 2 ^ 32"
    by (simp add: isUnitDouble_def seven_tenths_def)
  have "randomIndex seven_tenths 10 < 10 \<and>
     mant seven_tenths * 10 < (randomIndex seven_tenths 10 + 1) * 2 ^ scale seven_tenths \<and>
     randomIndex seven_tenths 10 * 2 ^ scale seven_tenths * 2 ^ 53 \<le>
       mant seven_tenths * 10 * (2 ^ 53 + 1) \<and>
     (0 * 2 ^ scale seven_tenths \<le> mant seven_tenths * 10 \<and>
      mant seven_tenths * 10 * (2 ^ 53 + 1) < (0 + 1) * 2 ^ scale seven_tenths * 2 ^ 53 \<longrightarrow>
        randomIndex seven_tenths 10 = 0)"
    by (rule mp [OF conjunct1 [OF conjunct2 [OF conjunct2 [OF word_extraction]]] b])
  then have bounds:
    "mant seven_tenths * 10 < (randomIndex seven_tenths 10 + 1) * 2 ^ scale seven_tenths"
    "randomIndex seven_tenths 10 * 2 ^ scale seven_tenths * 2 ^ 53 \<le>
       mant seven_tenths * 10 * (2 ^ 53 + 1)"
    by blast+
  have c: "isUnitDouble half \<and> (0::nat) < 10 \<and> (10::nat) < 2 ^ 32"
    using u by simp
  have d: "5 * 2 ^ scale half \<le> mant half * 10"
    "mant half * 10 * (2 ^ 53 + 1) < (5 + 1) * 2 ^ scale half * 2 ^ 53"
    by (simp_all add: half_def)
  have "randomIndex half 10 < 10 \<and>
     mant half * 10 < (randomIndex half 10 + 1) * 2 ^ scale half \<and>
     randomIndex half 10 * 2 ^ scale half * 2 ^ 53 \<le> mant half * 10 * (2 ^ 53 + 1) \<and>
     (5 * 2 ^ scale half \<le> mant half * 10 \<and>
      mant half * 10 * (2 ^ 53 + 1) < (5 + 1) * 2 ^ scale half * 2 ^ 53 \<longrightarrow>
        randomIndex half 10 = 5)"
    by (rule mp [OF conjunct1 [OF conjunct2 [OF conjunct2 [OF word_extraction]]] c])
  with d have five: "randomIndex half 10 = 5" by blast
  from b have sd: "isUnitDouble seven_tenths" by blast
  from english spanish sd randomIndex_seven_tenths bounds d five show ?thesis
    by (intro conjI)
qed

section \<open>Properties of the proxy\<close>

lemma en_not_empty: "js ''en'' \<noteq> []"
  by (simp add: js_def)

lemma langOrDefault_absent: "langOrDefault None = QString (js ''en'')"
  by (simp add: langOrDefault_def)

lemma langOrDefault_en: "langOrDefault (Some (QString (js ''en''))) = QString (js ''en'')"
  by (simp add: langOrDefault_def)

lemma langOrDefault_empty: "langOrDefault (Some (QString [])) = QString (js ''en'')"
  by (simp add: langOrDefault_def)

lemma langOrDefault_other: "v \<noteq> QString [] \<Longrightarrow> langOrDefault (Some v) = v"
  by (simp add: langOrDefault_def)

lemma api_word_outbound: "outbound (api_word e fetch q) = [upstreamRequest e q]"
  by (simp add: api_word_def Let_def)







lemma requests_differ: "ninjasRequest e \<noteq> spanishRequest e"
proof
  assume "ninjasRequest e = spanishRequest e"
  then have "url (ninjasRequest e) = url (spanishRequest e)" by simp
  then have "length (url (ninjasRequest e)) = length (url (spanishRequest e))" by simp
  then show False by (simp add: ninjasRequest_def spanishRequest_def js_def)
qed

text \<open>
  C8. A request without \<open>lang\<close> is handled exactly as a request with \<open>lang=en\<close>:
  the same call upstream (the English provider, with the \<open>X-Api-Key\<close> header) and the
  same reply, whatever the upstream world does.
\<close>

theorem lang_absent_is_en:
  "api_word e fetch None = api_word e fetch (Some (QString (js ''en''))) \<and>
   outbound (api_word e fetch None) = [ninjasRequest e] \<and>
   headers (ninjasRequest e) = [(js ''X-Api-Key'', NINJAS_API_KEY e)]"
proof -
  have same: "upstreamRequest e None = upstreamRequest e (Some (QString (js ''en'')))"
    by (simp add: upstreamRequest_def langOrDefault_absent langOrDefault_en)
  have "api_word e fetch None = api_word e fetch (Some (QString (js ''en'')))"
    by (simp add: api_word_def same)
  moreover have "outbound (api_word e fetch None) = [ninjasRequest e]"
    by (simp add: api_word_outbound upstreamRequest_def langOrDefault_absent)
  moreover have "headers (ninjasRequest e) = [(js ''X-Api-Key'', NINJAS_API_KEY e)]"
    by (simp add: ninjasRequest_def)
  ultimately show ?thesis by blast
qed




text \<open>
  C10, as the code has it. Every value of \<open>lang\<close> other than the string en and other
  than the empty string is routed to the Spanish provider with the bearer token; an
  absent \<open>lang\<close> and an empty \<open>lang\<close> go to the English provider.
\<close>

theorem lang_routing:
  "(v \<noteq> QString (js ''en'') \<and> v \<noteq> QString [] \<longrightarrow>
      outbound (api_word e fetch (Some v)) = [spanishRequest e]) \<and>
   headers (spanishRequest e) = [(js ''Authorization'', js ''Bearer '' @ SPANISH_API_KEY e)] \<and>
   outbound (api_word e fetch None) = [ninjasRequest e] \<and>
   outbound (api_word e fetch (Some (QString []))) = [ninjasRequest e]"
  by (simp add: api_word_outbound upstreamRequest_def langOrDefault_absent langOrDefault_empty
      langOrDefault_other spanishRequest_def)

theorem lang_routing_witness:
  "QString (js ''fr'') \<noteq> QString (js ''en'') \<and> QString (js ''fr'') \<noteq> QString [] \<and>
   outbound (api_word example_env fetch_ok (Some (QString (js ''fr'')))) =
     [spanishRequest example_env]"
proof -
  have h: "QString (js ''fr'') \<noteq> QString (js ''en'') \<and> QString (js ''fr'') \<noteq> QString []"
    by (simp add: js_def)
  from h lang_routing [of "QString (js ''fr'')" example_env fetch_ok] show ?thesis by blast
qed

text \<open>
  C10 as the claim states it fails: \<open>lang=\<close> (present, empty) is a value other than
  en, and the request goes to the English provider.
\<close>

theorem lang_empty_counterexample:
  "QString [] \<noteq> QString (js ''en'') \<and>
   outbound (api_word example_env fetch_ok (Some (QString []))) = [ninjasRequest example_env] \<and>
   ninjasRequest example_env \<noteq> spanishRequest example_env"
  using en_not_empty
  by (simp add: api_word_outbound upstreamRequest_def langOrDefault_empty requests_differ)

end
